theory Spec2Isabelle
  imports Main
begin

section \<open>Type algebra and signatures\<close>

text \<open>
  The typing declarations of \<^verbatim>\<open>numba/cuda/cudadecl.py\<close> work on values of
  \<^verbatim>\<open>numba.core.types\<close>, a module the file imports.
\<close>

text \<open>
  Modelled from the spec: the materialized constant carried by a literal type
  (\<^verbatim>\<open>literal_value\<close>); \<^verbatim>\<open>numba.core.types\<close> is imported, not defined, by the file.
  A Python constant is an integer, a boolean or a string.
\<close>

datatype pyval = IntV int | BoolV bool | StrV string

text \<open>
  Modelled from the spec: the closed type algebra of section 3 of the specification
  (\<^verbatim>\<open>numba.core.types\<close> is imported, not defined, by the file). \<open>Integer w s\<close> has
  width \<open>w\<close> and is signed iff \<open>s\<close>; the array layout is the string the source writes
  (\<^verbatim>\<open>layout='C'\<close>); \<open>Namespace\<close> is \<^verbatim>\<open>types.Module\<close>, \<open>FunctionRef\<close> is
  \<^verbatim>\<open>types.Function\<close> applied to a template class, \<open>Unit\<close> is \<^verbatim>\<open>types.none\<close>.
\<close>

datatype ty =
    Integer nat bool
  | Float nat
  | Boolean
  | Tuple "ty list"
  | Array ty nat string
  | Namespace string
  | FunctionRef string
  | LiteralT ty pyval
  | Unit

abbreviation int8 :: ty where "int8 \<equiv> Integer 8 True"
abbreviation int16 :: ty where "int16 \<equiv> Integer 16 True"
abbreviation int32 :: ty where "int32 \<equiv> Integer 32 True"
abbreviation int64 :: ty where "int64 \<equiv> Integer 64 True"
abbreviation uint8 :: ty where "uint8 \<equiv> Integer 8 False"
abbreviation uint16 :: ty where "uint16 \<equiv> Integer 16 False"
abbreviation uint32 :: ty where "uint32 \<equiv> Integer 32 False"
abbreviation uint64 :: ty where "uint64 \<equiv> Integer 64 False"
abbreviation float32 :: ty where "float32 \<equiv> Float 32"
abbreviation float64 :: ty where "float64 \<equiv> Float 64"

text \<open>
  \<^verbatim>\<open>types.intp\<close>, the signed integer of the platform's pointer width. The width is
  fixed by the \<^verbatim>\<open>types\<close> module, not by the file, and is a parameter \<open>pw\<close> of every
  definition that needs it.
\<close>

definition intp :: "nat \<Rightarrow> ty" where
  "intp pw = Integer pw True"

text \<open>\<^verbatim>\<open>types.UniTuple(dtype, count)\<close>: the tuple of \<open>count\<close> copies of \<open>dtype\<close>.\<close>

definition UniTuple :: "ty \<Rightarrow> nat \<Rightarrow> ty" where
  "UniTuple dtype count = Tuple (replicate count dtype)"

text \<open>
  Modelled from the spec: a signature is an ordered parameter-type list plus a return
  type; \<^verbatim>\<open>signature(return_type, *args)\<close> of \<^verbatim>\<open>numba.core.typing.templates\<close>
  builds one.
\<close>

record signature =
  return_type :: ty
  params :: "ty list"

definition signature :: "ty \<Rightarrow> ty list \<Rightarrow> signature" where
  "signature rt ps = \<lparr>return_type = rt, params = ps\<rparr>"

section \<open>Python failures as values\<close>

text \<open>
  \<open>AssertionError\<close>: a failed \<^verbatim>\<open>assert\<close>. \<open>ValueError m\<close>: raised with message
  \<open>m\<close>, by the source or by tuple unpacking. \<open>AttributeError a\<close>: the attribute \<open>a\<close>
  is read on a type that has none. \<open>TypeError\<close>: a typer is called with the wrong
  number of arguments.
\<close>

datatype error =
    AssertionError
  | ValueError string
  | AttributeError string
  | TypeError

text \<open>The keyword arguments of a call: a dict, empty iff it is \<open>[]\<close>.\<close>

type_synonym kws = "(string \<times> ty) list"

text \<open>\<^verbatim>\<open>x, y, z = args\<close>: unpacking raises unless there are exactly three values.\<close>

fun unpack3 :: "ty list \<Rightarrow> error + (ty \<times> ty \<times> ty)" where
  "unpack3 [] = Inl (ValueError ''not enough values to unpack (expected 3, got 0)'')"
| "unpack3 [x] = Inl (ValueError ''not enough values to unpack (expected 3, got 1)'')"
| "unpack3 [x, y] = Inl (ValueError ''not enough values to unpack (expected 3, got 2)'')"
| "unpack3 [x, y, z] = Inr (x, y, z)"
| "unpack3 (x # y # z # u # us) = Inl (ValueError ''too many values to unpack (expected 3)'')"

text \<open>
  The attributes \<^verbatim>\<open>dtype\<close> and \<^verbatim>\<open>ndim\<close> exist on array types, \<^verbatim>\<open>literal_value\<close>
  on literal types; reading them elsewhere raises.
\<close>

fun dtype :: "ty \<Rightarrow> error + ty" where
  "dtype (Array d n l) = Inr d"
| "dtype t = Inl (AttributeError ''dtype'')"

fun ndim :: "ty \<Rightarrow> error + nat" where
  "ndim (Array d n l) = Inr n"
| "ndim t = Inl (AttributeError ''ndim'')"

fun literal_value :: "ty \<Rightarrow> error + pyval" where
  "literal_value (LiteralT b c) = Inr c"
| "literal_value t = Inl (AttributeError ''literal_value'')"

section \<open>Predicate resolvers of the source\<close>

subsection \<open>\<^verbatim>\<open>Cuda_atomic_compare_and_swap.generic\<close>\<close>

definition Cuda_atomic_compare_and_swap_generic ::
  "ty list \<Rightarrow> kws \<Rightarrow> error + signature option" where
  "Cuda_atomic_compare_and_swap_generic args kws =
     (if kws \<noteq> [] then Inl AssertionError
      else case unpack3 args of
        Inl e \<Rightarrow> Inl e
      | Inr (ary, old, val) \<Rightarrow>
          (case dtype ary of
             Inl e \<Rightarrow> Inl e
           | Inr dty \<Rightarrow>
               if dty \<noteq> int32 then Inr None
               else (case ndim ary of
                       Inl e \<Rightarrow> Inl e
                     | Inr n \<Rightarrow>
                         if n = 1 then Inr (Some (signature dty [ary, dty, dty]))
                         else Inr None)))"

subsection \<open>\<^verbatim>\<open>Cuda_selp.generic\<close>\<close>

definition selp_supported_types :: "ty list" where
  "selp_supported_types =
     [float64, float32, int16, uint16, int32, uint32, int64, uint64]"

definition Cuda_selp_generic :: "ty list \<Rightarrow> kws \<Rightarrow> error + signature option" where
  "Cuda_selp_generic args kws =
     (if kws \<noteq> [] then Inl AssertionError
      else case unpack3 args of
        Inl e \<Rightarrow> Inl e
      | Inr (test, a, b) \<Rightarrow>
          if a \<noteq> b \<or> a \<notin> set selp_supported_types then Inr None
          else Inr (Some (signature a [test, a, a])))"

subsection \<open>\<^verbatim>\<open>Cuda_atomic_add.generic\<close>\<close>

definition Cuda_atomic_add_generic ::
  "nat \<Rightarrow> ty list \<Rightarrow> kws \<Rightarrow> error + signature option" where
  "Cuda_atomic_add_generic pw args kws =
     (if kws \<noteq> [] then Inl AssertionError
      else case unpack3 args of
        Inl e \<Rightarrow> Inl e
      | Inr (ary, idx, val) \<Rightarrow>
          (case ndim ary of
             Inl e \<Rightarrow> Inl e
           | Inr n \<Rightarrow>
               if n = 1 then
                 (case dtype ary of
                    Inl e \<Rightarrow> Inl e
                  | Inr d \<Rightarrow> Inr (Some (signature d [ary, intp pw, d])))
               else if n > 1 then
                 (case dtype ary of
                    Inl e \<Rightarrow> Inl e
                  | Inr d \<Rightarrow> Inr (Some (signature d [ary, idx, d])))
               else Inr None))"

subsection \<open>\<^verbatim>\<open>Cuda_atomic_maxmin.generic\<close>\<close>

definition maxmin_supported_types :: "ty list" where
  "maxmin_supported_types = [float64, float32, int32, uint32, int64, uint64]"

definition Cuda_atomic_maxmin_generic ::
  "nat \<Rightarrow> ty list \<Rightarrow> kws \<Rightarrow> error + signature option" where
  "Cuda_atomic_maxmin_generic pw args kws =
     (if kws \<noteq> [] then Inl AssertionError
      else case unpack3 args of
        Inl e \<Rightarrow> Inl e
      | Inr (ary, idx, val) \<Rightarrow>
          (case dtype ary of
             Inl e \<Rightarrow> Inl e
           | Inr d \<Rightarrow>
               if d \<notin> set maxmin_supported_types then Inr None
               else (case ndim ary of
                       Inl e \<Rightarrow> Inl e
                     | Inr n \<Rightarrow>
                         if n = 1 then Inr (Some (signature d [ary, intp pw, d]))
                         else if n > 1 then Inr (Some (signature d [ary, idx, d]))
                         else Inr None)))"

section \<open>Typers of the callable templates\<close>

subsection \<open>\<^verbatim>\<open>GridFunction.generic\<close>\<close>

text \<open>
  Python compares the literal's value with \<^verbatim>\<open>1\<close> and with the members of
  \<^verbatim>\<open>(2, 3)\<close> by \<^verbatim>\<open>==\<close>: an integer is equal to the number it is, a boolean to
  \<^verbatim>\<open>0\<close> or \<^verbatim>\<open>1\<close>, a string to no number.
\<close>

fun py_num :: "pyval \<Rightarrow> int option" where
  "py_num (IntV n) = Some n"
| "py_num (BoolV b) = Some (if b then 1 else 0)"
| "py_num (StrV s) = None"

definition GridFunction_typer :: "ty \<Rightarrow> error + signature" where
  "GridFunction_typer nd =
     (case literal_value nd of
        Inl e \<Rightarrow> Inl e
      | Inr val \<Rightarrow>
          (case py_num val of
             None \<Rightarrow> Inl (ValueError ''argument can only be 1, 2, 3'')
           | Some n \<Rightarrow>
               if n = 1 then Inr (signature int32 [int32])
               else if n \<in> set [2, 3] then Inr (signature (UniTuple int32 (nat n)) [int32])
               else Inl (ValueError ''argument can only be 1, 2, 3'')))"

subsection \<open>\<^verbatim>\<open>Cuda_array_decl.generic\<close>\<close>

text \<open>
  \<^verbatim>\<open>isinstance\<close> tests of the typer: \<^verbatim>\<open>types.IntegerLiteral\<close> is a literal whose
  base is an integer type, and it is a subclass of \<^verbatim>\<open>types.Integer\<close>.
\<close>

fun is_IntegerLiteral :: "ty \<Rightarrow> bool" where
  "is_IntegerLiteral (LiteralT (Integer w s) c) = True"
| "is_IntegerLiteral t = False"

fun is_Integer :: "ty \<Rightarrow> bool" where
  "is_Integer (Integer w s) = True"
| "is_Integer t = is_IntegerLiteral t"

fun is_Tuple :: "ty \<Rightarrow> bool" where
  "is_Tuple (Tuple ts) = True"
| "is_Tuple t = False"

text \<open>Iterating a tuple type yields its element types.\<close>

fun elements :: "ty \<Rightarrow> ty list" where
  "elements (Tuple ts) = ts"
| "elements t = []"

text \<open>
  \<^verbatim>\<open>parse_shape\<close> and \<^verbatim>\<open>parse_dtype\<close> are imported from
  \<^verbatim>\<open>numba.core.typing.npydecl\<close>; the typer takes them as the parameters \<open>ps\<close> and
  \<open>pd\<close>. The typer returns the array type itself, or \<^verbatim>\<open>None\<close>. The outer
  condition collects its three early returns: an integer type that is no literal, a
  tuple with an element that is no integer literal, and any other type of shape.
\<close>

definition Cuda_array_decl_typer ::
  "(ty \<Rightarrow> nat option) \<Rightarrow> (ty \<Rightarrow> ty option) \<Rightarrow> ty \<Rightarrow> ty \<Rightarrow> ty option" where
  "Cuda_array_decl_typer ps pd shape dt =
     (if (if is_Integer shape then \<not> is_IntegerLiteral shape
          else if is_Tuple shape then list_ex (\<lambda>s. \<not> is_IntegerLiteral s) (elements shape)
          else True)
      then None
      else (case (pd dt, ps shape) of
              (Some nb_dtype, Some n) \<Rightarrow> Some (Array nb_dtype n ''C'')
            | _ \<Rightarrow> None))"

text \<open>
  Modelled from the spec: \<^verbatim>\<open>parse_shape\<close> of \<^verbatim>\<open>numba.core.typing.npydecl\<close>, which
  is not part of the file. It returns a definite rank only if every dimension is a
  literal integer: 1 for a single literal integer, the length for a sequence of
  literal integers, nothing otherwise.
\<close>

definition parse_shape :: "ty \<Rightarrow> nat option" where
  "parse_shape shape =
     (if is_IntegerLiteral shape then Some 1
      else if is_Tuple shape \<and> list_all is_IntegerLiteral (elements shape)
      then Some (length (elements shape))
      else None)"

subsection \<open>\<^verbatim>\<open>Cuda_const_array_like.generic\<close>\<close>

definition Cuda_const_array_like_typer :: "ty \<Rightarrow> ty" where
  "Cuda_const_array_like_typer ndarray = ndarray"

section \<open>Signature tables of the concrete templates\<close>

abbreviation i4 :: ty where "i4 \<equiv> int32"
abbreviation i8 :: ty where "i8 \<equiv> int64"
abbreviation f4 :: ty where "f4 \<equiv> float32"
abbreviation f8 :: ty where "f8 \<equiv> float64"
abbreviation b1 :: ty where "b1 \<equiv> Boolean"

definition Cuda_syncthreads_cases :: "signature list" where
  "Cuda_syncthreads_cases = [signature Unit []]"

definition Cuda_syncthreads_count_cases :: "signature list" where
  "Cuda_syncthreads_count_cases = [signature i4 [i4]]"

definition Cuda_syncthreads_and_cases :: "signature list" where
  "Cuda_syncthreads_and_cases = [signature i4 [i4]]"

definition Cuda_syncthreads_or_cases :: "signature list" where
  "Cuda_syncthreads_or_cases = [signature i4 [i4]]"

definition Cuda_threadfence_device_cases :: "signature list" where
  "Cuda_threadfence_device_cases = [signature Unit []]"

definition Cuda_threadfence_block_cases :: "signature list" where
  "Cuda_threadfence_block_cases = [signature Unit []]"

definition Cuda_threadfence_system_cases :: "signature list" where
  "Cuda_threadfence_system_cases = [signature Unit []]"

definition Cuda_syncwarp_cases :: "signature list" where
  "Cuda_syncwarp_cases = [signature Unit [i4]]"

definition Cuda_shfl_sync_intrinsic_cases :: "signature list" where
  "Cuda_shfl_sync_intrinsic_cases =
     [signature (Tuple [i4, b1]) [i4, i4, i4, i4, i4],
      signature (Tuple [i8, b1]) [i4, i4, i8, i4, i4],
      signature (Tuple [f4, b1]) [i4, i4, f4, i4, i4],
      signature (Tuple [f8, b1]) [i4, i4, f8, i4, i4]]"

definition Cuda_vote_sync_intrinsic_cases :: "signature list" where
  "Cuda_vote_sync_intrinsic_cases = [signature (Tuple [i4, b1]) [i4, i4, b1]]"

definition Cuda_match_any_sync_cases :: "signature list" where
  "Cuda_match_any_sync_cases =
     [signature i4 [i4, i4],
      signature i4 [i4, i8],
      signature i4 [i4, f4],
      signature i4 [i4, f8]]"

definition Cuda_match_all_sync_cases :: "signature list" where
  "Cuda_match_all_sync_cases =
     [signature (Tuple [i4, b1]) [i4, i4],
      signature (Tuple [i4, b1]) [i4, i8],
      signature (Tuple [i4, b1]) [i4, f4],
      signature (Tuple [i4, b1]) [i4, f8]]"

definition Cuda_popc_cases :: "signature list" where
  "Cuda_popc_cases =
     [signature int8 [int8],
      signature int16 [int16],
      signature int32 [int32],
      signature int64 [int64],
      signature uint8 [uint8],
      signature uint16 [uint16],
      signature uint32 [uint32],
      signature uint64 [uint64]]"

definition Cuda_fma_cases :: "signature list" where
  "Cuda_fma_cases =
     [signature float32 [float32, float32, float32],
      signature float64 [float64, float64, float64]]"

definition Cuda_brev_cases :: "signature list" where
  "Cuda_brev_cases =
     [signature uint32 [uint32],
      signature uint64 [uint64]]"

definition Cuda_clz_cases :: "signature list" where
  "Cuda_clz_cases =
     [signature int8 [int8],
      signature int16 [int16],
      signature int32 [int32],
      signature int64 [int64],
      signature uint8 [uint8],
      signature uint16 [uint16],
      signature uint32 [uint32],
      signature uint64 [uint64]]"

definition Cuda_ffs_cases :: "signature list" where
  "Cuda_ffs_cases =
     [signature int8 [int8],
      signature int16 [int16],
      signature int32 [int32],
      signature int64 [int64],
      signature uint8 [uint8],
      signature uint16 [uint16],
      signature uint32 [uint32],
      signature uint64 [uint64]]"

section \<open>Registered templates\<close>

text \<open>
  The template classes decorated with \<^verbatim>\<open>@register\<close>, in the order of the file. The
  base classes \<^verbatim>\<open>GridFunction\<close>, \<^verbatim>\<open>Cuda_array_decl\<close> and \<^verbatim>\<open>Cuda_atomic_maxmin\<close>
  are not registered: they have no key.
\<close>

datatype template =
    Cuda_grid
  | Cuda_gridsize
  | Cuda_shared_array
  | Cuda_local_array
  | Cuda_const_array_like
  | Cuda_syncthreads
  | Cuda_syncthreads_count
  | Cuda_syncthreads_and
  | Cuda_syncthreads_or
  | Cuda_threadfence_device
  | Cuda_threadfence_block
  | Cuda_threadfence_system
  | Cuda_syncwarp
  | Cuda_shfl_sync_intrinsic
  | Cuda_vote_sync_intrinsic
  | Cuda_match_any_sync
  | Cuda_match_all_sync
  | Cuda_popc
  | Cuda_fma
  | Cuda_brev
  | Cuda_clz
  | Cuda_ffs
  | Cuda_selp
  | Cuda_atomic_add
  | Cuda_atomic_max
  | Cuda_atomic_min
  | Cuda_atomic_compare_and_swap

text \<open>
  The \<^verbatim>\<open>key\<close> of each class: the intrinsic it types, a Python function object, named
  here by the dotted path the source writes.
\<close>

fun key :: "template \<Rightarrow> string" where
  "key Cuda_grid = ''cuda.grid''"
| "key Cuda_gridsize = ''cuda.gridsize''"
| "key Cuda_shared_array = ''cuda.shared.array''"
| "key Cuda_local_array = ''cuda.local.array''"
| "key Cuda_const_array_like = ''cuda.const.array_like''"
| "key Cuda_syncthreads = ''cuda.syncthreads''"
| "key Cuda_syncthreads_count = ''cuda.syncthreads_count''"
| "key Cuda_syncthreads_and = ''cuda.syncthreads_and''"
| "key Cuda_syncthreads_or = ''cuda.syncthreads_or''"
| "key Cuda_threadfence_device = ''cuda.threadfence''"
| "key Cuda_threadfence_block = ''cuda.threadfence_block''"
| "key Cuda_threadfence_system = ''cuda.threadfence_system''"
| "key Cuda_syncwarp = ''cuda.syncwarp''"
| "key Cuda_shfl_sync_intrinsic = ''cuda.shfl_sync_intrinsic''"
| "key Cuda_vote_sync_intrinsic = ''cuda.vote_sync_intrinsic''"
| "key Cuda_match_any_sync = ''cuda.match_any_sync''"
| "key Cuda_match_all_sync = ''cuda.match_all_sync''"
| "key Cuda_popc = ''cuda.popc''"
| "key Cuda_fma = ''cuda.fma''"
| "key Cuda_brev = ''cuda.brev''"
| "key Cuda_clz = ''cuda.clz''"
| "key Cuda_ffs = ''cuda.ffs''"
| "key Cuda_selp = ''cuda.selp''"
| "key Cuda_atomic_add = ''cuda.atomic.add''"
| "key Cuda_atomic_max = ''cuda.atomic.max''"
| "key Cuda_atomic_min = ''cuda.atomic.min''"
| "key Cuda_atomic_compare_and_swap = ''cuda.atomic.compare_and_swap''"

text \<open>\<^verbatim>\<open>registry.functions\<close>: the classes \<^verbatim>\<open>@register\<close> has collected.\<close>

definition registry_functions :: "template list" where
  "registry_functions =
     [Cuda_grid, Cuda_gridsize, Cuda_shared_array, Cuda_local_array,
      Cuda_const_array_like, Cuda_syncthreads, Cuda_syncthreads_count,
      Cuda_syncthreads_and, Cuda_syncthreads_or, Cuda_threadfence_device,
      Cuda_threadfence_block, Cuda_threadfence_system, Cuda_syncwarp,
      Cuda_shfl_sync_intrinsic, Cuda_vote_sync_intrinsic, Cuda_match_any_sync,
      Cuda_match_all_sync, Cuda_popc, Cuda_fma, Cuda_brev, Cuda_clz, Cuda_ffs,
      Cuda_selp, Cuda_atomic_add, Cuda_atomic_max, Cuda_atomic_min,
      Cuda_atomic_compare_and_swap]"

text \<open>\<^verbatim>\<open>types.Function(cls)\<close> and \<^verbatim>\<open>types.Module(m)\<close>.\<close>

definition Function :: "template \<Rightarrow> ty" where
  "Function cls = FunctionRef (key cls)"

abbreviation Module :: "string \<Rightarrow> ty" where
  "Module m \<equiv> Namespace m"

text \<open>
  Modelled from the spec: \<^verbatim>\<open>dim3\<close> of \<^verbatim>\<open>numba.cuda.types\<close>, imported by the file;
  in the algebra of the specification a type with members is a namespace.
\<close>

abbreviation dim3 :: ty where "dim3 \<equiv> Namespace ''dim3''"

section \<open>Attribute templates\<close>

text \<open>
  The classes decorated with \<^verbatim>\<open>@register_attr\<close>. Each \<^verbatim>\<open>resolve_<name>\<close> method
  ignores its argument and returns a fixed type, so a class is the list of its
  member names with the type each method returns, in the order of the file.
\<close>

datatype attr_template =
    Dim3_attrs
  | CudaSharedModuleTemplate
  | CudaConstModuleTemplate
  | CudaLocalModuleTemplate
  | CudaAtomicTemplate
  | CudaModuleTemplate

fun attr_key :: "attr_template \<Rightarrow> ty" where
  "attr_key Dim3_attrs = dim3"
| "attr_key CudaSharedModuleTemplate = Module ''cuda.shared''"
| "attr_key CudaConstModuleTemplate = Module ''cuda.const''"
| "attr_key CudaLocalModuleTemplate = Module ''cuda.local''"
| "attr_key CudaAtomicTemplate = Module ''cuda.atomic''"
| "attr_key CudaModuleTemplate = Module ''cuda''"

fun resolve_methods :: "attr_template \<Rightarrow> (string \<times> ty) list" where
  "resolve_methods Dim3_attrs =
     [(''x'', int32), (''y'', int32), (''z'', int32)]"
| "resolve_methods CudaSharedModuleTemplate =
     [(''array'', Function Cuda_shared_array)]"
| "resolve_methods CudaConstModuleTemplate =
     [(''array_like'', Function Cuda_const_array_like)]"
| "resolve_methods CudaLocalModuleTemplate =
     [(''array'', Function Cuda_local_array)]"
| "resolve_methods CudaAtomicTemplate =
     [(''add'', Function Cuda_atomic_add),
      (''max'', Function Cuda_atomic_max),
      (''min'', Function Cuda_atomic_min),
      (''compare_and_swap'', Function Cuda_atomic_compare_and_swap)]"
| "resolve_methods CudaModuleTemplate =
     [(''grid'', Function Cuda_grid),
      (''gridsize'', Function Cuda_gridsize),
      (''threadIdx'', dim3),
      (''blockIdx'', dim3),
      (''blockDim'', dim3),
      (''gridDim'', dim3),
      (''warpsize'', int32),
      (''laneid'', int32),
      (''shared'', Module ''cuda.shared''),
      (''popc'', Function Cuda_popc),
      (''brev'', Function Cuda_brev),
      (''clz'', Function Cuda_clz),
      (''ffs'', Function Cuda_ffs),
      (''fma'', Function Cuda_fma),
      (''syncthreads'', Function Cuda_syncthreads),
      (''syncthreads_count'', Function Cuda_syncthreads_count),
      (''syncthreads_and'', Function Cuda_syncthreads_and),
      (''syncthreads_or'', Function Cuda_syncthreads_or),
      (''threadfence'', Function Cuda_threadfence_device),
      (''threadfence_block'', Function Cuda_threadfence_block),
      (''threadfence_system'', Function Cuda_threadfence_system),
      (''syncwarp'', Function Cuda_syncwarp),
      (''shfl_sync_intrinsic'', Function Cuda_shfl_sync_intrinsic),
      (''vote_sync_intrinsic'', Function Cuda_vote_sync_intrinsic),
      (''match_any_sync'', Function Cuda_match_any_sync),
      (''match_all_sync'', Function Cuda_match_all_sync),
      (''selp'', Function Cuda_selp),
      (''atomic'', Module ''cuda.atomic''),
      (''const'', Module ''cuda.const''),
      (''local'', Module ''cuda.local'')]"

text \<open>\<^verbatim>\<open>registry.attributes\<close>: the classes \<^verbatim>\<open>@register_attr\<close> has collected.\<close>

definition registry_attributes :: "attr_template list" where
  "registry_attributes =
     [Dim3_attrs, CudaSharedModuleTemplate, CudaConstModuleTemplate,
      CudaLocalModuleTemplate, CudaAtomicTemplate, CudaModuleTemplate]"

section \<open>Registry and resolver\<close>

text \<open>
  Modelled from the spec: the typing rule as a tagged variant (section 3). The
  classes \<^verbatim>\<open>ConcreteTemplate\<close>, \<^verbatim>\<open>AbstractTemplate\<close> and \<^verbatim>\<open>CallableTemplate\<close> of
  \<^verbatim>\<open>numba.core.typing.templates\<close> are imported, not defined, by the file: a concrete
  template is a fixed table, an abstract template a predicate (its \<^verbatim>\<open>generic\<close>
  receives the arguments and the keyword arguments), a callable template a closure
  factory (its \<^verbatim>\<open>generic\<close> takes no argument and returns the typer). Attribute maps
  are kept in the registry of their own, \<open>registry_attributes\<close>.
\<close>

datatype typing_rule =
    FixedTable "signature list"
  | Predicate "ty list \<Rightarrow> kws \<Rightarrow> error + signature option"
  | ClosureFactory "unit \<Rightarrow> ty list \<Rightarrow> error + signature option"

text \<open>
  A typer is a Python function of one or of two positional parameters; called with
  another number of arguments it raises \<^verbatim>\<open>TypeError\<close>. Modelled from the spec: a
  resolver yields a signature or nothing; where the typer of the source returns a bare
  type, that type is the return type of the signature, and the parameter types, which
  the specification leaves open, are the argument types supplied.
\<close>

definition GridFunction_generic :: "unit \<Rightarrow> ty list \<Rightarrow> error + signature option" where
  "GridFunction_generic u args =
     (case args of
        [nd] \<Rightarrow> (case GridFunction_typer nd of Inl e \<Rightarrow> Inl e | Inr s \<Rightarrow> Inr (Some s))
      | _ \<Rightarrow> Inl TypeError)"

definition Cuda_array_decl_generic ::
  "(ty \<Rightarrow> nat option) \<Rightarrow> (ty \<Rightarrow> ty option) \<Rightarrow> unit \<Rightarrow> ty list \<Rightarrow> error + signature option" where
  "Cuda_array_decl_generic ps pd u args =
     (case args of
        [shape, dt] \<Rightarrow>
          Inr (map_option (\<lambda>t. signature t args) (Cuda_array_decl_typer ps pd shape dt))
      | _ \<Rightarrow> Inl TypeError)"

definition Cuda_const_array_like_generic ::
  "unit \<Rightarrow> ty list \<Rightarrow> error + signature option" where
  "Cuda_const_array_like_generic u args =
     (case args of
        [ndarray] \<Rightarrow> Inr (Some (signature (Cuda_const_array_like_typer ndarray) args))
      | _ \<Rightarrow> Inl TypeError)"

text \<open>
  The rule of each registered class: its \<^verbatim>\<open>cases\<close> table or its \<^verbatim>\<open>generic\<close>, its
  own or inherited. \<open>pw\<close> is the platform's pointer width, \<open>ps\<close> and \<open>pd\<close> are the
  shape and dtype parsers.
\<close>

fun rule :: "nat \<Rightarrow> (ty \<Rightarrow> nat option) \<Rightarrow> (ty \<Rightarrow> ty option) \<Rightarrow> template \<Rightarrow> typing_rule" where
  "rule pw ps pd Cuda_grid = ClosureFactory GridFunction_generic"
| "rule pw ps pd Cuda_gridsize = ClosureFactory GridFunction_generic"
| "rule pw ps pd Cuda_shared_array = ClosureFactory (Cuda_array_decl_generic ps pd)"
| "rule pw ps pd Cuda_local_array = ClosureFactory (Cuda_array_decl_generic ps pd)"
| "rule pw ps pd Cuda_const_array_like = ClosureFactory Cuda_const_array_like_generic"
| "rule pw ps pd Cuda_syncthreads = FixedTable Cuda_syncthreads_cases"
| "rule pw ps pd Cuda_syncthreads_count = FixedTable Cuda_syncthreads_count_cases"
| "rule pw ps pd Cuda_syncthreads_and = FixedTable Cuda_syncthreads_and_cases"
| "rule pw ps pd Cuda_syncthreads_or = FixedTable Cuda_syncthreads_or_cases"
| "rule pw ps pd Cuda_threadfence_device = FixedTable Cuda_threadfence_device_cases"
| "rule pw ps pd Cuda_threadfence_block = FixedTable Cuda_threadfence_block_cases"
| "rule pw ps pd Cuda_threadfence_system = FixedTable Cuda_threadfence_system_cases"
| "rule pw ps pd Cuda_syncwarp = FixedTable Cuda_syncwarp_cases"
| "rule pw ps pd Cuda_shfl_sync_intrinsic = FixedTable Cuda_shfl_sync_intrinsic_cases"
| "rule pw ps pd Cuda_vote_sync_intrinsic = FixedTable Cuda_vote_sync_intrinsic_cases"
| "rule pw ps pd Cuda_match_any_sync = FixedTable Cuda_match_any_sync_cases"
| "rule pw ps pd Cuda_match_all_sync = FixedTable Cuda_match_all_sync_cases"
| "rule pw ps pd Cuda_popc = FixedTable Cuda_popc_cases"
| "rule pw ps pd Cuda_fma = FixedTable Cuda_fma_cases"
| "rule pw ps pd Cuda_brev = FixedTable Cuda_brev_cases"
| "rule pw ps pd Cuda_clz = FixedTable Cuda_clz_cases"
| "rule pw ps pd Cuda_ffs = FixedTable Cuda_ffs_cases"
| "rule pw ps pd Cuda_selp = Predicate Cuda_selp_generic"
| "rule pw ps pd Cuda_atomic_add = Predicate (Cuda_atomic_add_generic pw)"
| "rule pw ps pd Cuda_atomic_max = Predicate (Cuda_atomic_maxmin_generic pw)"
| "rule pw ps pd Cuda_atomic_min = Predicate (Cuda_atomic_maxmin_generic pw)"
| "rule pw ps pd Cuda_atomic_compare_and_swap = Predicate Cuda_atomic_compare_and_swap_generic"

text \<open>
  Modelled from the spec: fixed-table matching (section 4.2); the matcher belongs to
  \<^verbatim>\<open>numba.core.typing.templates\<close>, which is not part of the file. A candidate matches
  if its parameter list has the length of the argument list and each parameter equals
  the argument with its literal wrapper removed; the first match in declaration order
  wins; no match is the soft outcome.
\<close>

fun unliteral :: "ty \<Rightarrow> ty" where
  "unliteral (LiteralT b c) = b"
| "unliteral t = t"

definition matches :: "signature \<Rightarrow> ty list \<Rightarrow> bool" where
  "matches s args \<longleftrightarrow>
     length (params s) = length args \<and> list_all2 (\<lambda>p a. p = unliteral a) (params s) args"

definition fixed_table_match :: "signature list \<Rightarrow> ty list \<Rightarrow> signature option" where
  "fixed_table_match cases args = find (\<lambda>s. matches s args) cases"

text \<open>
  Modelled from the spec: the resolver (sections 4.1 and 6); the dispatch code belongs
  to \<^verbatim>\<open>numba.core.typing\<close>, which is not part of the file. An identity with no
  registered rule is unresolved; for a registered one the resolver asserts that the
  named arguments are empty, then runs the rule's strategy. \<open>Inr None\<close> is
  \<^verbatim>\<open>Unresolved\<close>, \<open>Inl e\<close> a fatal error.
\<close>

fun dispatch :: "typing_rule \<Rightarrow> ty list \<Rightarrow> kws \<Rightarrow> error + signature option" where
  "dispatch (FixedTable cases) args kws = Inr (fixed_table_match cases args)"
| "dispatch (Predicate resolver) args kws = resolver args kws"
| "dispatch (ClosureFactory make_resolver) args kws = make_resolver () args"

definition resolve_call ::
  "nat \<Rightarrow> (ty \<Rightarrow> nat option) \<Rightarrow> (ty \<Rightarrow> ty option) \<Rightarrow>
   string \<Rightarrow> ty list \<Rightarrow> kws \<Rightarrow> error + signature option" where
  "resolve_call pw ps pd identity args kws =
     (case find (\<lambda>cls. key cls = identity) registry_functions of
        None \<Rightarrow> Inr None
      | Some cls \<Rightarrow>
          if kws \<noteq> [] then Inl AssertionError
          else dispatch (rule pw ps pd cls) args kws)"

text \<open>
  Modelled from the spec: attribute resolution (section 4.5); \<^verbatim>\<open>AttributeTemplate\<close>
  belongs to \<^verbatim>\<open>numba.core.typing.templates\<close>, which is not part of the file. The
  member name is looked up by exact comparison among the \<^verbatim>\<open>resolve_<name>\<close> methods
  of the class registered for the namespace; \<open>None\<close> is \<^verbatim>\<open>NotFound\<close>.
\<close>

definition resolve_attribute :: "ty \<Rightarrow> string \<Rightarrow> ty option" where
  "resolve_attribute namespace name =
     (case find (\<lambda>cls. attr_key cls = namespace) registry_attributes of
        None \<Rightarrow> None
      | Some cls \<Rightarrow> map_of (resolve_methods cls) name)"

section \<open>Compare-and-swap\<close>

text \<open>
  Claim C1, as amended. For a call of the compare-and-swap intrinsic with the argument
  types (array, old, new) and no keyword arguments, resolution succeeds exactly when
  the array's dtype is \<open>Integer 32 True\<close> and its rank is 1. On success the return type
  is that dtype and the parameter types are (array, dtype, dtype): the first parameter
  is the array type itself, not its dtype. In every other case the result is
  unresolved.
\<close>

theorem compare_and_swap_signature:
  "Cuda_atomic_compare_and_swap_generic [Array d n l, old, new] [] =
     (if d = int32 \<and> n = 1
      then Inr (Some (signature int32 [Array d n l, int32, int32]))
      else Inr None)"
  by (simp add: Cuda_atomic_compare_and_swap_generic_def)

text \<open>The theorem at a 1-D \<open>int32\<close> array, at an \<open>int64\<close> array and at a 2-D array.\<close>

theorem compare_and_swap_signature_witness:
  "Cuda_atomic_compare_and_swap_generic [Array int32 1 ''C'', int32, int32] [] =
     Inr (Some (signature int32 [Array int32 1 ''C'', int32, int32])) \<and>
   Cuda_atomic_compare_and_swap_generic [Array int64 1 ''C'', int64, int64] [] = Inr None \<and>
   Cuda_atomic_compare_and_swap_generic [Array int32 2 ''C'', int32, int32] [] = Inr None"
  using compare_and_swap_signature [of int32 1 "''C''" int32 int32]
    compare_and_swap_signature [of int64 1 "''C''" int64 int64]
    compare_and_swap_signature [of int32 2 "''C''" int32 int32]
  by simp

text \<open>
  The claim as first stated has all three parameter types equal to the dtype. On a 1-D
  \<open>int32\<close> array the call resolves, and the parameter list is not three times
  \<open>int32\<close>.
\<close>

theorem compare_and_swap_first_param_counterexample:
  "Cuda_atomic_compare_and_swap_generic [Array int32 1 ''C'', int32, int32] [] =
     Inr (Some (signature int32 [Array int32 1 ''C'', int32, int32])) \<and>
   params (signature int32 [Array int32 1 ''C'', int32, int32]) \<noteq> [int32, int32, int32]"
  by (simp add: Cuda_atomic_compare_and_swap_generic_def signature_def)

section \<open>Grid index and grid size\<close>

text \<open>
  Claim C3, as amended. The typer shared by the grid-index and the grid-size intrinsic,
  called with a literal integer whose constant is \<open>n\<close>: for \<open>n = 1\<close> the return type
  is \<open>Integer 32 True\<close>; for \<open>n\<close> equal to 2 or 3 it is the tuple of \<open>n\<close> copies of
  \<open>Integer 32 True\<close>; for every other \<open>n\<close> the typer raises \<^verbatim>\<open>ValueError\<close> with the
  message \<^verbatim>\<open>argument can only be 1, 2, 3\<close>, and so never yields the unresolved
  outcome.
\<close>

theorem grid_typer_result:
  "GridFunction_typer (LiteralT (Integer w s) (IntV n)) =
     (if n = 1 then Inr (signature int32 [int32])
      else if n = 2 \<or> n = 3 then Inr (signature (Tuple (replicate (nat n) int32)) [int32])
      else Inl (ValueError ''argument can only be 1, 2, 3''))"
  by (simp add: GridFunction_typer_def UniTuple_def)

text \<open>The theorem at the literals 1, 2, 3, 4 and 0.\<close>

theorem grid_typer_result_witness:
  "GridFunction_typer (LiteralT int64 (IntV 1)) = Inr (signature int32 [int32]) \<and>
   GridFunction_typer (LiteralT int64 (IntV 2)) = Inr (signature (Tuple [int32, int32]) [int32]) \<and>
   GridFunction_typer (LiteralT int64 (IntV 3)) =
     Inr (signature (Tuple [int32, int32, int32]) [int32]) \<and>
   GridFunction_typer (LiteralT int64 (IntV 4)) = Inl (ValueError ''argument can only be 1, 2, 3'') \<and>
   GridFunction_typer (LiteralT int64 (IntV 0)) = Inl (ValueError ''argument can only be 1, 2, 3'')"
  using grid_typer_result [of 64 True 1] grid_typer_result [of 64 True 2]
    grid_typer_result [of 64 True 3] grid_typer_result [of 64 True 4]
    grid_typer_result [of 64 True 0]
  by (simp add: numeral_2_eq_2 numeral_3_eq_3)

text \<open>
  The claim as first stated gives the message as \<^verbatim>\<open>argument can only be 1, 2, or 3\<close>.
  At the literal 4 the error raised carries another text.
\<close>

theorem grid_typer_message_counterexample:
  "GridFunction_typer (LiteralT int64 (IntV 4)) = Inl (ValueError ''argument can only be 1, 2, 3'') \<and>
   GridFunction_typer (LiteralT int64 (IntV 4)) \<noteq> Inl (ValueError ''argument can only be 1, 2, or 3'')"
  by (simp add: GridFunction_typer_def)

section \<open>Atomic operations\<close>

text \<open>
  Claim C5. For a call of the atomic-add intrinsic with the argument types
  (array, index, value) and no keyword arguments: a rank-1 array resolves to the
  parameter types (array, platform-sized signed integer, dtype) with return type dtype;
  an array of rank above 1 resolves with the supplied index type unchanged and return
  type dtype; a rank-0 array is unresolved.
\<close>

theorem atomic_add_signature:
  "Cuda_atomic_add_generic pw [Array d n l, idx, val] [] =
     (if n = 1 then Inr (Some (signature d [Array d n l, intp pw, d]))
      else if n > 1 then Inr (Some (signature d [Array d n l, idx, d]))
      else Inr None)"
  by (simp add: Cuda_atomic_add_generic_def)

text \<open>The theorem on a 64-bit platform, at arrays of rank 1, 2 and 0.\<close>

theorem atomic_add_signature_witness:
  "Cuda_atomic_add_generic 64 [Array int32 1 ''C'', int64, int32] [] =
     Inr (Some (signature int32 [Array int32 1 ''C'', Integer 64 True, int32])) \<and>
   Cuda_atomic_add_generic 64 [Array int32 2 ''C'', Tuple [int64, int64], int32] [] =
     Inr (Some (signature int32 [Array int32 2 ''C'', Tuple [int64, int64], int32])) \<and>
   Cuda_atomic_add_generic 64 [Array int32 0 ''C'', Tuple [], int32] [] = Inr None"
  using atomic_add_signature [of 64 int32 1 "''C''" int64 int32]
    atomic_add_signature [of 64 int32 2 "''C''" "Tuple [int64, int64]" int32]
    atomic_add_signature [of 64 int32 0 "''C''" "Tuple []" int32]
  by (simp add: intp_def)

text \<open>
  Claim C6. For a call of the atomic-max or atomic-min intrinsic with the argument
  types (array, index, value) and no keyword arguments: a dtype outside
  float64, float32, int32, uint32, int64, uint64 gives the unresolved outcome, not an
  error; a dtype among them gives the signature of the shape rule of atomic add, and
  the result is the one atomic add gives.
\<close>

theorem atomic_maxmin_signature:
  "(d \<notin> set [float64, float32, int32, uint32, int64, uint64] \<longrightarrow>
      Cuda_atomic_maxmin_generic pw [Array d n l, idx, val] [] = Inr None) \<and>
   (d \<in> set [float64, float32, int32, uint32, int64, uint64] \<longrightarrow>
      Cuda_atomic_maxmin_generic pw [Array d n l, idx, val] [] =
        (if n = 1 then Inr (Some (signature d [Array d n l, intp pw, d]))
         else if n > 1 then Inr (Some (signature d [Array d n l, idx, d]))
         else Inr None) \<and>
      Cuda_atomic_maxmin_generic pw [Array d n l, idx, val] [] =
        Cuda_atomic_add_generic pw [Array d n l, idx, val] [])"
  by (simp add: Cuda_atomic_maxmin_generic_def maxmin_supported_types_def
      Cuda_atomic_add_generic_def)

text \<open>The theorem at an \<open>int8\<close> array, outside the list, and at a \<open>float32\<close> array.\<close>

theorem atomic_maxmin_signature_witness:
  "int8 \<notin> set [float64, float32, int32, uint32, int64, uint64] \<and>
   Cuda_atomic_maxmin_generic 64 [Array int8 1 ''C'', int64, int8] [] = Inr None \<and>
   float32 \<in> set [float64, float32, int32, uint32, int64, uint64] \<and>
   Cuda_atomic_maxmin_generic 64 [Array float32 1 ''C'', int64, float32] [] =
     Inr (Some (signature float32 [Array float32 1 ''C'', Integer 64 True, float32]))"
  using atomic_maxmin_signature [of int8 64 1 "''C''" int64 int8]
    atomic_maxmin_signature [of float32 64 1 "''C''" int64 float32]
  by (simp add: intp_def)

text \<open>
  Claim C10. Atomic add has no dtype list: for an array of rank at least 1 and any
  dtype it resolves, with return type that dtype. The max/min rule rejects the dtypes
  \<open>Integer 8 True\<close> and \<open>Boolean\<close> on the same arrays.
\<close>

theorem atomic_add_any_dtype:
  "1 \<le> n \<Longrightarrow>
     (\<exists>s. Cuda_atomic_add_generic pw [Array d n l, idx, val] [] = Inr (Some s) \<and>
          return_type s = d) \<and>
     Cuda_atomic_maxmin_generic pw [Array int8 n l, idx, val] [] = Inr None \<and>
     Cuda_atomic_maxmin_generic pw [Array Boolean n l, idx, val] [] = Inr None"
  by (simp add: Cuda_atomic_add_generic_def signature_def
      Cuda_atomic_maxmin_generic_def maxmin_supported_types_def)

text \<open>The theorem at 1-D arrays of \<open>int8\<close> and of \<open>Boolean\<close>.\<close>

theorem atomic_add_any_dtype_witness:
  "(1::nat) \<le> 1 \<and>
   Cuda_atomic_add_generic 64 [Array int8 1 ''C'', int64, int8] [] =
     Inr (Some (signature int8 [Array int8 1 ''C'', Integer 64 True, int8])) \<and>
   Cuda_atomic_add_generic 64 [Array Boolean 1 ''C'', int64, Boolean] [] =
     Inr (Some (signature Boolean [Array Boolean 1 ''C'', Integer 64 True, Boolean])) \<and>
   Cuda_atomic_maxmin_generic 64 [Array int8 1 ''C'', int64, int8] [] = Inr None"
  using atomic_add_any_dtype [of 1 64 int8 "''C''" int64 int8]
    atomic_add_any_dtype [of 1 64 Boolean "''C''" int64 Boolean]
  by (simp add: Cuda_atomic_add_generic_def intp_def)

section \<open>Branch select\<close>

text \<open>
  Claim C7. For a call of the branch-select intrinsic with the argument types
  (condition, a, b) and no keyword arguments, resolution succeeds exactly when \<open>a\<close> and
  \<open>b\<close> are the same type and that type is one of float64, float32, int16, uint16,
  int32, uint32, int64, uint64; the signature then has return type \<open>a\<close> and parameter
  types (condition, a, a). Otherwise the result is unresolved.
\<close>

theorem selp_signature:
  "Cuda_selp_generic [test, a, b] [] =
     (if a = b \<and> a \<in> set [float64, float32, int16, uint16, int32, uint32, int64, uint64]
      then Inr (Some (signature a [test, a, a]))
      else Inr None)"
  by (simp add: Cuda_selp_generic_def selp_supported_types_def)

text \<open>The theorem at equal supported branches, at differing branches, and at
  equal branches of the unsupported type \<open>int8\<close>.\<close>

theorem selp_signature_witness:
  "Cuda_selp_generic [Boolean, float64, float64] [] =
     Inr (Some (signature float64 [Boolean, float64, float64])) \<and>
   Cuda_selp_generic [Boolean, float64, float32] [] = Inr None \<and>
   Cuda_selp_generic [Boolean, int8, int8] [] = Inr None"
  using selp_signature [of Boolean float64 float64] selp_signature [of Boolean float64 float32]
    selp_signature [of Boolean int8 int8]
  by simp

section \<open>Array allocation\<close>

lemma is_Integer_iff: "is_Integer t \<longleftrightarrow> (\<exists>w s. t = Integer w s) \<or> is_IntegerLiteral t"
  by (cases t) auto

text \<open>
  The early returns of the typer, taken together: it goes on to the parsers exactly
  when the shape is a literal integer or a tuple of literal integers.
\<close>

lemma array_decl_precheck:
  "(if is_Integer shape then \<not> is_IntegerLiteral shape
    else if is_Tuple shape then list_ex (\<lambda>s. \<not> is_IntegerLiteral s) (elements shape)
    else True) \<longleftrightarrow>
   \<not> (is_IntegerLiteral shape \<or> is_Tuple shape \<and> list_all is_IntegerLiteral (elements shape))"
  by (cases shape) (auto simp: list_ex_iff list_all_iff is_Integer_iff)

text \<open>
  Claim C4. For a call of an array-allocation intrinsic with the arguments
  (shape, dtype): whatever the two parsers are, a shape that is neither a single literal
  integer nor a tuple of literal integers is unresolved, a failing shape parse or dtype
  parse is unresolved, and otherwise the result is the array of the parsed dtype, the
  parsed rank and layout \<^verbatim>\<open>C\<close>. With the shape parser the specification describes, the
  rank is 1 for a single literal integer and the length of the tuple for a tuple of
  literal integers.
\<close>

theorem array_decl_result:
  "Cuda_array_decl_typer ps pd shape dt =
     (if is_IntegerLiteral shape \<or> is_Tuple shape \<and> list_all is_IntegerLiteral (elements shape)
      then (case (pd dt, ps shape) of
              (Some d, Some n) \<Rightarrow> Some (Array d n ''C'')
            | _ \<Rightarrow> None)
      else None) \<and>
   Cuda_array_decl_typer parse_shape pd shape dt =
     (if is_IntegerLiteral shape then map_option (\<lambda>d. Array d 1 ''C'') (pd dt)
      else if is_Tuple shape \<and> list_all is_IntegerLiteral (elements shape)
      then map_option (\<lambda>d. Array d (length (elements shape)) ''C'') (pd dt)
      else None)"
proof -
  have general: "Cuda_array_decl_typer ps' pd shape dt =
     (if is_IntegerLiteral shape \<or> is_Tuple shape \<and> list_all is_IntegerLiteral (elements shape)
      then (case (pd dt, ps' shape) of
              (Some d, Some n) \<Rightarrow> Some (Array d n ''C'')
            | _ \<Rightarrow> None)
      else None)" for ps'
    unfolding Cuda_array_decl_typer_def array_decl_precheck by simp
  have parsed: "Cuda_array_decl_typer parse_shape pd shape dt =
     (if is_IntegerLiteral shape then map_option (\<lambda>d. Array d 1 ''C'') (pd dt)
      else if is_Tuple shape \<and> list_all is_IntegerLiteral (elements shape)
      then map_option (\<lambda>d. Array d (length (elements shape)) ''C'') (pd dt)
      else None)"
    unfolding general by (auto simp: parse_shape_def split: option.splits)
  from general [of ps] parsed show ?thesis by (rule conjI)
qed

text \<open>
  The theorem with a dtype parser that accepts exactly the float types: the literal
  shape 10, a pair of literals, a runtime integer, a tuple with a runtime element, and
  a dtype the parser rejects.
\<close>

theorem array_decl_result_witness:
  "Cuda_array_decl_typer parse_shape (\<lambda>t. case t of Float w \<Rightarrow> Some t | _ \<Rightarrow> None)
     (LiteralT int64 (IntV 10)) float32 = Some (Array float32 1 ''C'') \<and>
   Cuda_array_decl_typer parse_shape (\<lambda>t. case t of Float w \<Rightarrow> Some t | _ \<Rightarrow> None)
     (Tuple [LiteralT int64 (IntV 4), LiteralT int64 (IntV 8)]) float32 =
     Some (Array float32 2 ''C'') \<and>
   Cuda_array_decl_typer parse_shape (\<lambda>t. case t of Float w \<Rightarrow> Some t | _ \<Rightarrow> None)
     int64 float32 = None \<and>
   Cuda_array_decl_typer parse_shape (\<lambda>t. case t of Float w \<Rightarrow> Some t | _ \<Rightarrow> None)
     (Tuple [LiteralT int64 (IntV 4), int64]) float32 = None \<and>
   Cuda_array_decl_typer parse_shape (\<lambda>t. case t of Float w \<Rightarrow> Some t | _ \<Rightarrow> None)
     (LiteralT int64 (IntV 10)) Boolean = None"
  using array_decl_result [of parse_shape "\<lambda>t. case t of Float w \<Rightarrow> Some t | _ \<Rightarrow> None"
      "LiteralT int64 (IntV 10)" float32]
    array_decl_result [of parse_shape "\<lambda>t. case t of Float w \<Rightarrow> Some t | _ \<Rightarrow> None"
      "Tuple [LiteralT int64 (IntV 4), LiteralT int64 (IntV 8)]" float32]
    array_decl_result [of parse_shape "\<lambda>t. case t of Float w \<Rightarrow> Some t | _ \<Rightarrow> None"
      int64 float32]
    array_decl_result [of parse_shape "\<lambda>t. case t of Float w \<Rightarrow> Some t | _ \<Rightarrow> None"
      "Tuple [LiteralT int64 (IntV 4), int64]" float32]
    array_decl_result [of parse_shape "\<lambda>t. case t of Float w \<Rightarrow> Some t | _ \<Rightarrow> None"
      "LiteralT int64 (IntV 10)" Boolean]
  by (simp add: parse_shape_def)

section \<open>Population count\<close>

lemma find_Cuda_popc:
  "find (\<lambda>cls. key cls = ''cuda.popc'') registry_functions = Some Cuda_popc"
  by (simp add: registry_functions_def)

lemma popc_table_match:
  "fixed_table_match Cuda_popc_cases args =
     (case args of
        [a] \<Rightarrow>
          if unliteral a \<in> set [int8, int16, int32, int64, uint8, uint16, uint32, uint64]
          then Some (signature (unliteral a) [unliteral a])
          else None
      | _ \<Rightarrow> None)"
proof (cases args)
  case Nil
  then show ?thesis
    by (simp add: fixed_table_match_def Cuda_popc_cases_def matches_def signature_def)
next
  case outer: (Cons a rest)
  show ?thesis
  proof (cases rest)
    case Nil
    with outer show ?thesis
      by (auto simp add: fixed_table_match_def Cuda_popc_cases_def matches_def signature_def)
  next
    case (Cons b rest')
    with outer show ?thesis
      by (simp add: fixed_table_match_def Cuda_popc_cases_def matches_def signature_def)
  qed
qed

lemma resolve_call_popc:
  "resolve_call pw ps pd ''cuda.popc'' args [] = Inr (fixed_table_match Cuda_popc_cases args)"
  by (simp add: resolve_call_def find_Cuda_popc)

text \<open>
  Claim C8. The population-count intrinsic, called with no keyword arguments. A call
  with one argument whose type, with a literal wrapper removed, is one of int8, int16,
  int32, int64, uint8, uint16, uint32, uint64 returns the declared signature of that
  type, whose return type is the argument's base type. Every other argument list, such
  as a single \<open>Float 32\<close>, is unresolved and raises nothing.
\<close>

theorem popc_resolution:
  "resolve_call pw ps pd ''cuda.popc'' args [] =
     (case args of
        [a] \<Rightarrow>
          if unliteral a \<in> set [int8, int16, int32, int64, uint8, uint16, uint32, uint64]
          then Inr (Some (signature (unliteral a) [unliteral a]))
          else Inr None
      | _ \<Rightarrow> Inr None) \<and>
   (t \<in> set [int8, int16, int32, int64, uint8, uint16, uint32, uint64] \<longrightarrow>
      signature t [t] \<in> set Cuda_popc_cases \<and>
      resolve_call pw ps pd ''cuda.popc'' [t] [] = Inr (Some (signature t [t])) \<and>
      resolve_call pw ps pd ''cuda.popc'' [LiteralT t c] [] = Inr (Some (signature t [t])))"
proof -
  have whole: "resolve_call pw ps pd ''cuda.popc'' args [] =
     (case args of
        [a] \<Rightarrow>
          if unliteral a \<in> set [int8, int16, int32, int64, uint8, uint16, uint32, uint64]
          then Inr (Some (signature (unliteral a) [unliteral a]))
          else Inr None
      | _ \<Rightarrow> Inr None)"
    unfolding resolve_call_popc popc_table_match by (simp split: list.splits)
  have declared: "t \<in> set [int8, int16, int32, int64, uint8, uint16, uint32, uint64] \<longrightarrow>
      signature t [t] \<in> set Cuda_popc_cases \<and>
      resolve_call pw ps pd ''cuda.popc'' [t] [] = Inr (Some (signature t [t])) \<and>
      resolve_call pw ps pd ''cuda.popc'' [LiteralT t c] [] = Inr (Some (signature t [t]))"
    unfolding resolve_call_popc popc_table_match by (simp add: Cuda_popc_cases_def)
  from whole declared show ?thesis by (rule conjI)
qed

text \<open>The theorem at \<open>uint8\<close>, at a literal of base \<open>int64\<close>, at \<open>Float 32\<close> and
  at two arguments.\<close>

theorem popc_resolution_witness:
  "uint8 \<in> set [int8, int16, int32, int64, uint8, uint16, uint32, uint64] \<and>
   resolve_call 64 parse_shape Some ''cuda.popc'' [uint8] [] =
     Inr (Some (signature uint8 [uint8])) \<and>
   resolve_call 64 parse_shape Some ''cuda.popc'' [LiteralT int64 (IntV 5)] [] =
     Inr (Some (signature int64 [int64])) \<and>
   resolve_call 64 parse_shape Some ''cuda.popc'' [float32] [] = Inr None \<and>
   resolve_call 64 parse_shape Some ''cuda.popc'' [int32, int32] [] = Inr None"
  using popc_resolution [of 64 parse_shape Some "[uint8]" uint8 "IntV 5"]
    popc_resolution [of 64 parse_shape Some "[LiteralT int64 (IntV 5)]" int64 "IntV 5"]
    popc_resolution [of 64 parse_shape Some "[float32]" uint8 "IntV 5"]
    popc_resolution [of 64 parse_shape Some "[int32, int32]" uint8 "IntV 5"]
  by simp

section \<open>Attribute lookup\<close>

lemma find_attr_template:
  "find (\<lambda>c. attr_key c = attr_key cls) registry_attributes = Some cls"
  by (cases cls) (simp_all add: registry_attributes_def)

lemma distinct_resolve_methods: "distinct (map fst (resolve_methods cls))"
  by (cases cls) simp_all

lemma resolve_attribute_registered:
  "resolve_attribute (attr_key cls) name = map_of (resolve_methods cls) name"
  by (simp add: resolve_attribute_def find_attr_template)

text \<open>
  Claim C9. For an attribute lookup on the namespace of a registered attribute class:
  a member name returns exactly the type its \<^verbatim>\<open>resolve_<name>\<close> method returns, and a
  name that is not, character for character, one of the member names returns nothing.
  So \<^verbatim>\<open>atomic\<close> on the top-level namespace is the nested atomic namespace,
  \<^verbatim>\<open>compare_and_swap\<close> on that namespace is the function type of the compare-and-swap
  rule, and \<^verbatim>\<open>Atomic\<close>, which differs from a member name in case only, is not found.
\<close>

theorem attribute_lookup:
  "cls \<in> set registry_attributes \<Longrightarrow>
     ((name, t) \<in> set (resolve_methods cls) \<longrightarrow>
        resolve_attribute (attr_key cls) name = Some t) \<and>
     (name \<notin> fst ` set (resolve_methods cls) \<longrightarrow>
        resolve_attribute (attr_key cls) name = None) \<and>
     resolve_attribute (Module ''cuda'') ''atomic'' = Some (Module ''cuda.atomic'') \<and>
     resolve_attribute (Module ''cuda.atomic'') ''compare_and_swap'' =
       Some (Function Cuda_atomic_compare_and_swap) \<and>
     resolve_attribute (Module ''cuda'') ''Atomic'' = None"
proof -
  have known: "(name, t) \<in> set (resolve_methods cls) \<longrightarrow>
      resolve_attribute (attr_key cls) name = Some t"
    using distinct_resolve_methods [of cls] by (simp add: resolve_attribute_registered)
  have unknown: "name \<notin> fst ` set (resolve_methods cls) \<longrightarrow>
      resolve_attribute (attr_key cls) name = None"
    by (simp add: resolve_attribute_registered map_of_eq_None_iff)
  have nested: "resolve_attribute (Module ''cuda'') ''atomic'' = Some (Module ''cuda.atomic'')"
    using resolve_attribute_registered [of CudaModuleTemplate "''atomic''"] by simp
  have cas: "resolve_attribute (Module ''cuda.atomic'') ''compare_and_swap'' =
      Some (Function Cuda_atomic_compare_and_swap)"
    using resolve_attribute_registered [of CudaAtomicTemplate "''compare_and_swap''"] by simp
  have upper: "resolve_attribute (Module ''cuda'') ''Atomic'' = None"
    using resolve_attribute_registered [of CudaModuleTemplate "''Atomic''"] by simp
  from known unknown nested cas upper show ?thesis by blast
qed

text \<open>The theorem on the atomic namespace, at the member \<^verbatim>\<open>add\<close> and at the
  name \<^verbatim>\<open>ADD\<close>.\<close>

theorem attribute_lookup_witness:
  "CudaAtomicTemplate \<in> set registry_attributes \<and>
   (''add'', Function Cuda_atomic_add) \<in> set (resolve_methods CudaAtomicTemplate) \<and>
   resolve_attribute (Module ''cuda.atomic'') ''add'' = Some (Function Cuda_atomic_add) \<and>
   ''ADD'' \<notin> fst ` set (resolve_methods CudaAtomicTemplate) \<and>
   resolve_attribute (Module ''cuda.atomic'') ''ADD'' = None"
proof -
  have registered: "CudaAtomicTemplate \<in> set registry_attributes"
    by (simp add: registry_attributes_def)
  from attribute_lookup [OF registered, of "''add''" "Function Cuda_atomic_add"]
    attribute_lookup [OF registered, of "''ADD''" "Function Cuda_atomic_add"] registered
  show ?thesis by simp
qed

section \<open>Named arguments\<close>

lemma registered_key_found:
  "identity \<in> set (map key registry_functions) \<Longrightarrow>
     \<exists>cls. find (\<lambda>cls. key cls = identity) registry_functions = Some cls"
  by (cases "find (\<lambda>cls. key cls = identity) registry_functions") (auto simp: find_None_iff)

text \<open>
  Claim C2. For every registered intrinsic identity and every argument list, a call
  with a non-empty map of named arguments raises the assertion error of a malformed
  request; it is never the unresolved outcome. The resolver raises it for every rule,
  those of the grid and array-allocation intrinsics included; the \<^verbatim>\<open>generic\<close> methods
  of branch select, atomic add, atomic max/min and compare-and-swap raise it themselves
  as their first step.
\<close>

theorem named_arguments_fatal:
  "identity \<in> set (map key registry_functions) \<Longrightarrow> kws \<noteq> [] \<Longrightarrow>
     resolve_call pw ps pd identity args kws = Inl AssertionError \<and>
     Cuda_selp_generic args kws = Inl AssertionError \<and>
     Cuda_atomic_add_generic pw args kws = Inl AssertionError \<and>
     Cuda_atomic_maxmin_generic pw args kws = Inl AssertionError \<and>
     Cuda_atomic_compare_and_swap_generic args kws = Inl AssertionError"
  using registered_key_found [of identity]
  by (auto simp: resolve_call_def Cuda_selp_generic_def Cuda_atomic_add_generic_def
      Cuda_atomic_maxmin_generic_def Cuda_atomic_compare_and_swap_generic_def)

text \<open>The theorem at the grid intrinsic called with \<^verbatim>\<open>ndim=2\<close> and at a
  shared-array allocation called with \<^verbatim>\<open>dtype=float32\<close>.\<close>

theorem named_arguments_fatal_witness:
  "''cuda.grid'' \<in> set (map key registry_functions) \<and>
   ''cuda.shared.array'' \<in> set (map key registry_functions) \<and>
   [(''ndim'', LiteralT int64 (IntV 2))] \<noteq> [] \<and>
   resolve_call 64 parse_shape Some ''cuda.grid'' [] [(''ndim'', LiteralT int64 (IntV 2))] =
     Inl AssertionError \<and>
   resolve_call 64 parse_shape Some ''cuda.shared.array'' [LiteralT int64 (IntV 10)]
     [(''dtype'', float32)] = Inl AssertionError"
proof -
  have grid: "''cuda.grid'' \<in> set (map key registry_functions)"
    by (simp add: registry_functions_def)
  have shared: "''cuda.shared.array'' \<in> set (map key registry_functions)"
    by (simp add: registry_functions_def)
  have k1: "[(''ndim'', LiteralT int64 (IntV 2))] \<noteq> []" by simp
  have k2: "[(''dtype'', float32)] \<noteq> []" by simp
  from named_arguments_fatal [OF grid k1, of 64 parse_shape Some "[]"]
    named_arguments_fatal [OF shared k2, of 64 parse_shape Some "[LiteralT int64 (IntV 10)]"]
    grid shared
  show ?thesis by simp
qed

end
